theory Spec2Isabelle
  imports Main
begin

section \<open>Values of \<^verbatim>\<open>src/libs/Authentication.ts\<close>\<close>

text \<open>
  A JavaScript value that may be \<^verbatim>\<open>undefined\<close> or \<^verbatim>\<open>null\<close> is an \<open>option\<close>, with
  \<open>None\<close> for both. The TypeScript types are erased at run time and
  \<^verbatim>\<open>requireParameters\<close> checks \<^verbatim>\<open>partnerName\<close> and \<^verbatim>\<open>partnerPassword\<close> at run time as
  well, so every field of \<^verbatim>\<open>Parameters\<close> is optional here.
\<close>

datatype error =
    Error string
  | ParameterRequired string string

text \<open>How a synchronous call ends, and how a promise settles.\<close>

datatype 'a completion = Returned 'a | Thrown error

datatype 'a promise = Fulfilled 'a | Rejected error

record Parameters =
  useExpensifyLogin :: "bool option"
  partnerName :: "string option"
  partnerPassword :: "string option"
  partnerUserID :: "string option"
  partnerUserSecret :: "string option"
  twoFactorAuthCode :: "string option"
  email :: "string option"
  authToken :: "string option"

text \<open>
  The object literal that \<^verbatim>\<open>Authenticate\<close> hands to \<^verbatim>\<open>Network.post\<close>: the keys of
  \<^verbatim>\<open>Parameters\<close> and the two flags.
\<close>

record Command_data = Parameters +
  shouldRetry :: bool
  forceNetworkRequest :: bool

record Response =
  jsonCode :: int
  authToken :: "string option"
  encryptedAuthToken :: "string option"

record Credentials =
  autoGeneratedLogin :: "string option"
  autoGeneratedPassword :: "string option"

text \<open>The session of the reactive store, written by \<^verbatim>\<open>updateSessionAuthTokens\<close>.\<close>

record Session =
  authToken :: "string option"
  encryptedAuthToken :: "string option"

text \<open>The module variables behind \<^verbatim>\<open>Network/NetworkStore\<close>.\<close>

record NetworkStore =
  credentials :: "Credentials option"
  authToken :: "string option"
  authenticating :: bool

text \<open>
  Every call that leaves the module is recorded, in order, next to the state it changes.
\<close>

datatype effect =
    PostCall string Command_data
  | SetIsAuthenticatingCall bool
  | SetAuthTokenCall "string option"
  | UpdateSessionAuthTokensCall "string option" "string option"
  | LogHmmmCall string string string
  | RedirectToSignInCall string

record World =
  networkStore :: NetworkStore
  session :: Session
  calls :: "effect list"

text \<open>
  The imported constants and the error classifier are parameters of the model:
  \<^verbatim>\<open>CONFIG.EXPENSIFY.PARTNER_NAME\<close>, \<^verbatim>\<open>CONFIG.EXPENSIFY.PARTNER_PASSWORD\<close>,
  \<^verbatim>\<open>CONST.JSON_CODE.UNABLE_TO_RETRY\<close> and \<^verbatim>\<open>ErrorUtils.getAuthenticateErrorMessage\<close>.
  The response's \<^verbatim>\<open>jsonCode\<close> is an integer and the unable-to-retry code is compared
  with it by \<^verbatim>\<open>===\<close>.
\<close>

record Env =
  PARTNER_NAME :: string
  PARTNER_PASSWORD :: string
  UNABLE_TO_RETRY :: int
  getAuthenticateErrorMessage :: "Response \<Rightarrow> string"

text \<open>
  The Command Transport: how the promise of \<^verbatim>\<open>Network.post(commandName, data)\<close> settles.
\<close>

type_synonym transport = "string \<Rightarrow> Command_data \<Rightarrow> Response promise"

section \<open>Collaborators\<close>

text \<open>
  Modelled from the spec: \<^verbatim>\<open>parameters[parameterName]\<close> for the keys of \<^verbatim>\<open>Parameters\<close>;
  a parameter is missing when its value is undefined or null.
\<close>

fun has_parameter :: "Parameters \<Rightarrow> string \<Rightarrow> bool" where
  "has_parameter p n =
     (if n = ''useExpensifyLogin'' then useExpensifyLogin p \<noteq> None
      else if n = ''partnerName'' then partnerName p \<noteq> None
      else if n = ''partnerPassword'' then partnerPassword p \<noteq> None
      else if n = ''partnerUserID'' then partnerUserID p \<noteq> None
      else if n = ''partnerUserSecret'' then partnerUserSecret p \<noteq> None
      else if n = ''twoFactorAuthCode'' then twoFactorAuthCode p \<noteq> None
      else if n = ''email'' then email p \<noteq> None
      else if n = ''authToken'' then Parameters.authToken p \<noteq> None
      else False)"

text \<open>
  Modelled from the spec: \<^verbatim>\<open>requireParameters\<close> of \<^verbatim>\<open>src/libs/requireParameters\<close>, whose
  source is missing. Spec section 7: a call without a required parameter "fails
  fast, synchronously, before any network call is attempted (precondition violation)".
  It throws for the first required name that is missing and returns otherwise.
\<close>

fun requireParameters :: "string list \<Rightarrow> Parameters \<Rightarrow> string \<Rightarrow> unit completion" where
  "requireParameters [] parameters commandName = Returned ()"
| "requireParameters (n # ns) parameters commandName =
     (if has_parameter parameters n then requireParameters ns parameters commandName
      else Thrown (ParameterRequired n commandName))"

text \<open>
  Modelled from the spec: \<^verbatim>\<open>Network.post\<close>, the Command Transport of spec section 6,
  \<^verbatim>\<open>send(commandName, params) -> Future<Response>\<close>. The command is recorded as sent and the
  promise is the one the transport gives.
\<close>

definition Network_post :: "transport \<Rightarrow> string \<Rightarrow> Command_data \<Rightarrow> World \<Rightarrow> Response promise \<times> World" where
  "Network_post tr commandName data w =
     (tr commandName data, w\<lparr>calls := calls w @ [PostCall commandName data]\<rparr>)"

text \<open>
  Modelled from the spec: the accessors of \<^verbatim>\<open>Network/NetworkStore\<close>, the Session Store
  of spec section 2, which "exposes get/set with no business logic".
\<close>

definition NetworkStore_setIsAuthenticating :: "bool \<Rightarrow> World \<Rightarrow> World" where
  "NetworkStore_setIsAuthenticating val w =
     w\<lparr>networkStore := (networkStore w)\<lparr>authenticating := val\<rparr>,
       calls := calls w @ [SetIsAuthenticatingCall val]\<rparr>"

definition NetworkStore_isAuthenticating :: "World \<Rightarrow> bool" where
  "NetworkStore_isAuthenticating w = authenticating (networkStore w)"

definition NetworkStore_getCredentials :: "World \<Rightarrow> Credentials option" where
  "NetworkStore_getCredentials w = credentials (networkStore w)"

definition NetworkStore_setAuthToken :: "string option \<Rightarrow> World \<Rightarrow> World" where
  "NetworkStore_setAuthToken newAuthToken w =
     w\<lparr>networkStore := (networkStore w)\<lparr>NetworkStore.authToken := newAuthToken\<rparr>,
       calls := calls w @ [SetAuthTokenCall newAuthToken]\<rparr>"

definition NetworkStore_getAuthToken :: "World \<Rightarrow> string option" where
  "NetworkStore_getAuthToken w = NetworkStore.authToken (networkStore w)"

text \<open>
  Modelled from the spec: \<^verbatim>\<open>updateSessionAuthTokens\<close> of
  \<^verbatim>\<open>src/libs/actions/Session/updateSessionAuthTokens\<close>; spec section 4.1: "writes
  authToken/encryptedAuthToken into the Session Store".
\<close>

definition updateSessionAuthTokens :: "string option \<Rightarrow> string option \<Rightarrow> World \<Rightarrow> World" where
  "updateSessionAuthTokens a e w =
     w\<lparr>session := \<lparr>Session.authToken = a, Session.encryptedAuthToken = e\<rparr>,
       calls := calls w @ [UpdateSessionAuthTokensCall a e]\<rparr>"

text \<open>
  Modelled from the spec: \<^verbatim>\<open>Log.hmmm\<close> and \<^verbatim>\<open>redirectToSignIn\<close> (the Sign-In Redirector,
  \<^verbatim>\<open>redirect(reason: string) -> void\<close>) are external callbacks; the call and its argument
  are recorded, and what the redirector does to the application is outside this module.
\<close>

definition Log_hmmm :: "string \<Rightarrow> string \<Rightarrow> string \<Rightarrow> World \<Rightarrow> World" where
  "Log_hmmm message command err w = w\<lparr>calls := calls w @ [LogHmmmCall message command err]\<rparr>"

definition redirectToSignIn :: "string \<Rightarrow> World \<Rightarrow> World" where
  "redirectToSignIn errorMessage w = w\<lparr>calls := calls w @ [RedirectToSignInCall errorMessage]\<rparr>"

text \<open>
  \<^verbatim>\<open>promise.then(callback)\<close>: a rejected promise skips the callback and stays rejected; a
  fulfilled one runs the callback on the world of that moment, and a throw inside the
  callback rejects the resulting promise.
\<close>

definition promise_then ::
  "'a promise \<Rightarrow> ('a \<Rightarrow> World \<Rightarrow> 'b completion \<times> World) \<Rightarrow> World \<Rightarrow> 'b promise \<times> World" where
  "promise_then p callback w =
     (case p of
        Rejected e \<Rightarrow> (Rejected e, w)
      | Fulfilled x \<Rightarrow>
          (case callback x w of
             (Returned y, w') \<Rightarrow> (Fulfilled y, w')
           | (Thrown e, w') \<Rightarrow> (Rejected e, w')))"

section \<open>\<^verbatim>\<open>Authenticate\<close> and \<^verbatim>\<open>reauthenticate\<close>\<close>

definition Authenticate :: "transport \<Rightarrow> Parameters \<Rightarrow> World \<Rightarrow> Response promise completion \<times> World" where
  "Authenticate tr parameters w =
     (let commandName = ''Authenticate'' in
      case requireParameters [''partnerName'', ''partnerPassword'', ''partnerUserID'', ''partnerUserSecret'']
             parameters commandName of
        Thrown e \<Rightarrow> (Thrown e, w)
      | Returned u \<Rightarrow>
          (case Network_post tr commandName
                  \<lparr>useExpensifyLogin = useExpensifyLogin parameters,
                   partnerName = partnerName parameters,
                   partnerPassword = partnerPassword parameters,
                   partnerUserID = partnerUserID parameters,
                   partnerUserSecret = partnerUserSecret parameters,
                   twoFactorAuthCode = twoFactorAuthCode parameters,
                   email = email parameters,
                   Parameters.authToken = Parameters.authToken parameters,
                   shouldRetry = False,
                   forceNetworkRequest = True\<rparr> w of
             (p, w') \<Rightarrow> (Returned p, w')))"

text \<open>The arrow function given to \<^verbatim>\<open>.then\<close> in \<^verbatim>\<open>reauthenticate\<close> (lines 64 to 97).\<close>

definition reauthenticate_callback :: "Env \<Rightarrow> string \<Rightarrow> Response \<Rightarrow> World \<Rightarrow> unit completion \<times> World" where
  "reauthenticate_callback env command response w =
     (if jsonCode response = UNABLE_TO_RETRY env then
        (Thrown (Error ''Unable to retry Authenticate request''),
         NetworkStore_setIsAuthenticating False w)
      else if jsonCode response \<noteq> 200 then
        (let errorMessage = getAuthenticateErrorMessage env response;
             w1 = NetworkStore_setIsAuthenticating False w;
             w2 = Log_hmmm ''Redirecting to Sign In because we failed to reauthenticate''
                    command errorMessage w1;
             w3 = redirectToSignIn errorMessage w2
         in (Returned (), w3))
      else
        (let w1 = updateSessionAuthTokens (Response.authToken response)
                    (Response.encryptedAuthToken response) w;
             w2 = NetworkStore_setAuthToken (Response.authToken response) w1;
             w3 = NetworkStore_setIsAuthenticating False w2
         in (Returned (), w3)))"

text \<open>
  The synchronous part of \<^verbatim>\<open>reauthenticate\<close> (lines 55 to 63): it ends when
  \<^verbatim>\<open>Authenticate\<close> has thrown or has handed back the promise of the posted command.
\<close>

definition reauthenticate_sync :: "Env \<Rightarrow> transport \<Rightarrow> World \<Rightarrow> Response promise completion \<times> World" where
  "reauthenticate_sync env tr w =
     (let w1 = NetworkStore_setIsAuthenticating True w;
          credentials = NetworkStore_getCredentials w1
      in Authenticate tr
           \<lparr>useExpensifyLogin = Some False,
            partnerName = Some (PARTNER_NAME env),
            partnerPassword = Some (PARTNER_PASSWORD env),
            partnerUserID = Option.bind credentials autoGeneratedLogin,
            partnerUserSecret = Option.bind credentials autoGeneratedPassword,
            twoFactorAuthCode = None,
            email = None,
            Parameters.authToken = None\<rparr> w1)"

text \<open>
  One whole cycle: the synchronous part, then the callback once the promise has settled.
  A throw of the synchronous part leaves \<^verbatim>\<open>reauthenticate\<close> as an exception.
\<close>

definition reauthenticate :: "Env \<Rightarrow> transport \<Rightarrow> string \<Rightarrow> World \<Rightarrow> unit promise completion \<times> World" where
  "reauthenticate env tr command w =
     (case reauthenticate_sync env tr w of
        (Thrown e, w') \<Rightarrow> (Thrown e, w')
      | (Returned p, w') \<Rightarrow>
          (case promise_then p (reauthenticate_callback env command) w' of
             (q, w'') \<Rightarrow> (Returned q, w'')))"


section \<open>What a cycle did\<close>

text \<open>The calls recorded between two worlds, and the views of them the properties use.\<close>

definition new_calls :: "World \<Rightarrow> World \<Rightarrow> effect list" where
  "new_calls w w' = drop (length (calls w)) (calls w')"

fun sent_commands :: "effect list \<Rightarrow> (string \<times> Command_data) list" where
  "sent_commands [] = []"
| "sent_commands (PostCall n d # cs) = (n, d) # sent_commands cs"
| "sent_commands (c # cs) = sent_commands cs"

fun redirect_messages :: "effect list \<Rightarrow> string list" where
  "redirect_messages [] = []"
| "redirect_messages (RedirectToSignInCall m # cs) = m # redirect_messages cs"
| "redirect_messages (c # cs) = redirect_messages cs"

fun session_updates :: "effect list \<Rightarrow> (string option \<times> string option) list" where
  "session_updates [] = []"
| "session_updates (UpdateSessionAuthTokensCall a e # cs) = (a, e) # session_updates cs"
| "session_updates (c # cs) = session_updates cs"

fun authToken_updates :: "effect list \<Rightarrow> string option list" where
  "authToken_updates [] = []"
| "authToken_updates (SetAuthTokenCall a # cs) = a # authToken_updates cs"
| "authToken_updates (c # cs) = authToken_updates cs"

text \<open>
  The stored credentials carry both \<^verbatim>\<open>autoGeneratedLogin\<close> and
  \<^verbatim>\<open>autoGeneratedPassword\<close>, so that the parameter check of \<^verbatim>\<open>Authenticate\<close> passes.
\<close>

definition has_stored_credentials :: "World \<Rightarrow> bool" where
  "has_stored_credentials w =
     (case NetworkStore_getCredentials w of
        None \<Rightarrow> False
      | Some c \<Rightarrow> autoGeneratedLogin c \<noteq> None \<and> autoGeneratedPassword c \<noteq> None)"

text \<open>A transport that settles every command the same way.\<close>

definition answer :: "Response promise \<Rightarrow> transport" where
  "answer p commandName data = p"

text \<open>The object literal of \<^verbatim>\<open>Authenticate\<close> (lines 28 to 46), for given parameters.\<close>

definition Authenticate_data :: "Parameters \<Rightarrow> Command_data" where
  "Authenticate_data parameters =
     \<lparr>useExpensifyLogin = useExpensifyLogin parameters,
      partnerName = partnerName parameters,
      partnerPassword = partnerPassword parameters,
      partnerUserID = partnerUserID parameters,
      partnerUserSecret = partnerUserSecret parameters,
      twoFactorAuthCode = twoFactorAuthCode parameters,
      email = email parameters,
      Parameters.authToken = Parameters.authToken parameters,
      shouldRetry = False,
      forceNetworkRequest = True\<rparr>"

text \<open>The parameters that \<^verbatim>\<open>reauthenticate\<close> builds from the stored credentials (lines 58 to 64).\<close>

definition reauthenticate_parameters :: "Env \<Rightarrow> Credentials option \<Rightarrow> Parameters" where
  "reauthenticate_parameters env stored =
     \<lparr>useExpensifyLogin = Some False,
      partnerName = Some (PARTNER_NAME env),
      partnerPassword = Some (PARTNER_PASSWORD env),
      partnerUserID = Option.bind stored autoGeneratedLogin,
      partnerUserSecret = Option.bind stored autoGeneratedPassword,
      twoFactorAuthCode = None,
      email = None,
      Parameters.authToken = None\<rparr>"

text \<open>
  The world right after the synchronous part of \<^verbatim>\<open>reauthenticate\<close> has posted its command.
\<close>

definition posted_data :: "Env \<Rightarrow> World \<Rightarrow> Command_data" where
  "posted_data env w = Authenticate_data (reauthenticate_parameters env (NetworkStore_getCredentials w))"

definition posted_world :: "Env \<Rightarrow> World \<Rightarrow> World" where
  "posted_world env w =
     w\<lparr>networkStore := (networkStore w)\<lparr>authenticating := True\<rparr>,
       calls := calls w @ [SetIsAuthenticatingCall True, PostCall ''Authenticate'' (posted_data env w)]\<rparr>"

text \<open>
  \<open>n\<close> callers invoke \<^verbatim>\<open>reauthenticate\<close> one after the other before any response has
  arrived: the synchronous part runs \<open>n\<close> times and no callback has run yet.
\<close>

fun callers :: "nat \<Rightarrow> Env \<Rightarrow> transport \<Rightarrow> World \<Rightarrow> World" where
  "callers 0 env tr w = w"
| "callers (Suc n) env tr w = callers n env tr (snd (reauthenticate_sync env tr w))"

subsection \<open>Concrete inputs\<close>

definition example_classify :: "Response \<Rightarrow> string" where
  "example_classify r = (if jsonCode r = 407 then ''Session expired'' else ''Unknown error'')"

definition example_env :: Env where
  "example_env =
     \<lparr>PARTNER_NAME = ''partner'', PARTNER_PASSWORD = ''secret'',
      UNABLE_TO_RETRY = - 1, getAuthenticateErrorMessage = example_classify\<rparr>"

definition example_world :: World where
  "example_world =
     \<lparr>networkStore =
        \<lparr>credentials = Some \<lparr>autoGeneratedLogin = Some ''login'', autoGeneratedPassword = Some ''pw''\<rparr>,
         NetworkStore.authToken = Some ''tok0'', authenticating = False\<rparr>,
      session = \<lparr>Session.authToken = Some ''tok0'', Session.encryptedAuthToken = None\<rparr>,
      calls = []\<rparr>"

definition world_without_credentials :: World where
  "world_without_credentials =
     \<lparr>networkStore =
        \<lparr>credentials = None, NetworkStore.authToken = Some ''tok0'', authenticating = False\<rparr>,
      session = \<lparr>Session.authToken = Some ''tok0'', Session.encryptedAuthToken = None\<rparr>,
      calls = []\<rparr>"

definition example_parameters :: Parameters where
  "example_parameters =
     \<lparr>useExpensifyLogin = Some True, partnerName = Some ''partner'',
      partnerPassword = Some ''secret'', partnerUserID = Some ''login'',
      partnerUserSecret = None, twoFactorAuthCode = None, email = None,
      Parameters.authToken = None\<rparr>"

definition complete_parameters :: Parameters where
  "complete_parameters =
     \<lparr>useExpensifyLogin = Some True, partnerName = Some ''partner'',
      partnerPassword = Some ''secret'', partnerUserID = Some ''login'',
      partnerUserSecret = Some ''pw'', twoFactorAuthCode = Some ''123456'',
      email = Some ''user@example.com'', Parameters.authToken = None\<rparr>"

definition response_200 :: Response where
  "response_200 = \<lparr>jsonCode = 200, Response.authToken = Some ''tok1'', Response.encryptedAuthToken = None\<rparr>"

definition response_200_no_token :: Response where
  "response_200_no_token = \<lparr>jsonCode = 200, Response.authToken = None, Response.encryptedAuthToken = None\<rparr>"

definition response_407 :: Response where
  "response_407 = \<lparr>jsonCode = 407, Response.authToken = None, Response.encryptedAuthToken = None\<rparr>"

definition response_unable_to_retry :: Response where
  "response_unable_to_retry =
     \<lparr>jsonCode = - 1, Response.authToken = None, Response.encryptedAuthToken = None\<rparr>"

section \<open>The synchronous part\<close>

lemma new_calls_append [simp]: "new_calls w (w'\<lparr>calls := calls w @ cs\<rparr>) = cs"
  by (simp add: new_calls_def)

lemma sent_commands_append [simp]:
  "sent_commands (xs @ ys) = sent_commands xs @ sent_commands ys"
  by (induction xs rule: sent_commands.induct) simp_all

lemma redirect_messages_append [simp]:
  "redirect_messages (xs @ ys) = redirect_messages xs @ redirect_messages ys"
  by (induction xs rule: redirect_messages.induct) simp_all

lemma session_updates_append [simp]:
  "session_updates (xs @ ys) = session_updates xs @ session_updates ys"
  by (induction xs rule: session_updates.induct) simp_all

lemma authToken_updates_append [simp]:
  "authToken_updates (xs @ ys) = authToken_updates xs @ authToken_updates ys"
  by (induction xs rule: authToken_updates.induct) simp_all

lemma requireParameters_four:
  "requireParameters [''partnerName'', ''partnerPassword'', ''partnerUserID'', ''partnerUserSecret'']
     p c =
   (if partnerName p = None then Thrown (ParameterRequired ''partnerName'' c)
    else if partnerPassword p = None then Thrown (ParameterRequired ''partnerPassword'' c)
    else if partnerUserID p = None then Thrown (ParameterRequired ''partnerUserID'' c)
    else if partnerUserSecret p = None then Thrown (ParameterRequired ''partnerUserSecret'' c)
    else Returned ())"
  by simp

lemma Authenticate_present:
  assumes "partnerName p \<noteq> None" "partnerPassword p \<noteq> None"
    "partnerUserID p \<noteq> None" "partnerUserSecret p \<noteq> None"
  shows "Authenticate tr p w =
           (Returned (tr ''Authenticate'' (Authenticate_data p)),
            w\<lparr>calls := calls w @ [PostCall ''Authenticate'' (Authenticate_data p)]\<rparr>)"
  using assms unfolding Authenticate_def Let_def requireParameters_four Network_post_def
  by (simp add: Authenticate_data_def)

lemma Authenticate_data_flags [simp]:
  "shouldRetry (Authenticate_data p) = False" "forceNetworkRequest (Authenticate_data p) = True"
  by (simp_all add: Authenticate_data_def)

lemma Authenticate_absent:
  assumes "partnerName p = None \<or> partnerPassword p = None
    \<or> partnerUserID p = None \<or> partnerUserSecret p = None"
  shows "\<exists>n. Authenticate tr p w = (Thrown (ParameterRequired n ''Authenticate''), w)"
  using assms unfolding Authenticate_def Let_def requireParameters_four
  by auto


lemma reauthenticate_sync_present:
  assumes "has_stored_credentials w"
  shows "reauthenticate_sync env tr w =
     (Returned (tr ''Authenticate'' (posted_data env w)), posted_world env w)"
proof -
  let ?w1 = "NetworkStore_setIsAuthenticating True w"
  let ?p = "reauthenticate_parameters env (NetworkStore_getCredentials w)"
  have creds: "NetworkStore_getCredentials ?w1 = NetworkStore_getCredentials w"
    by (simp add: NetworkStore_getCredentials_def NetworkStore_setIsAuthenticating_def)
  have present: "partnerName ?p \<noteq> None" "partnerPassword ?p \<noteq> None"
    "partnerUserID ?p \<noteq> None" "partnerUserSecret ?p \<noteq> None"
    using assms
    by (auto simp: has_stored_credentials_def reauthenticate_parameters_def split: option.splits)
  have "reauthenticate_sync env tr w = Authenticate tr ?p ?w1"
    by (simp add: reauthenticate_sync_def Let_def creds reauthenticate_parameters_def)
  also have "\<dots> = (Returned (tr ''Authenticate'' (Authenticate_data ?p)),
      ?w1\<lparr>calls := calls ?w1 @ [PostCall ''Authenticate'' (Authenticate_data ?p)]\<rparr>)"
    by (rule Authenticate_present [OF present])
  finally show ?thesis
    by (simp add: NetworkStore_setIsAuthenticating_def posted_world_def posted_data_def)
qed

lemma reauthenticate_sync_absent:
  assumes "\<not> has_stored_credentials w"
  shows "\<exists>n. reauthenticate_sync env tr w =
     (Thrown (ParameterRequired n ''Authenticate''), NetworkStore_setIsAuthenticating True w)"
proof -
  let ?w1 = "NetworkStore_setIsAuthenticating True w"
  let ?p = "reauthenticate_parameters env (NetworkStore_getCredentials w)"
  have creds: "NetworkStore_getCredentials ?w1 = NetworkStore_getCredentials w"
    by (simp add: NetworkStore_getCredentials_def NetworkStore_setIsAuthenticating_def)
  have missing: "partnerName ?p = None \<or> partnerPassword ?p = None
    \<or> partnerUserID ?p = None \<or> partnerUserSecret ?p = None"
    using assms
    by (auto simp: has_stored_credentials_def reauthenticate_parameters_def split: option.splits)
  have "reauthenticate_sync env tr w = Authenticate tr ?p ?w1"
    by (simp add: reauthenticate_sync_def Let_def creds reauthenticate_parameters_def)
  with Authenticate_absent [OF missing, of tr ?w1] show ?thesis
    by simp
qed


section \<open>The callback\<close>

lemma callback_unable_to_retry:
  assumes "jsonCode r = UNABLE_TO_RETRY env"
  shows "reauthenticate_callback env command r w =
     (Thrown (Error ''Unable to retry Authenticate request''),
      w\<lparr>networkStore := (networkStore w)\<lparr>authenticating := False\<rparr>,
        calls := calls w @ [SetIsAuthenticatingCall False]\<rparr>)"
  using assms by (simp add: reauthenticate_callback_def NetworkStore_setIsAuthenticating_def)

lemma callback_terminal:
  assumes "jsonCode r \<noteq> UNABLE_TO_RETRY env" "jsonCode r \<noteq> 200"
  shows "reauthenticate_callback env command r w =
     (Returned (),
      w\<lparr>networkStore := (networkStore w)\<lparr>authenticating := False\<rparr>,
        calls := calls w @ [SetIsAuthenticatingCall False,
          LogHmmmCall ''Redirecting to Sign In because we failed to reauthenticate''
            command (getAuthenticateErrorMessage env r),
          RedirectToSignInCall (getAuthenticateErrorMessage env r)]\<rparr>)"
  using assms
  by (simp add: reauthenticate_callback_def Let_def NetworkStore_setIsAuthenticating_def
      Log_hmmm_def redirectToSignIn_def)

lemma callback_success:
  assumes "jsonCode r \<noteq> UNABLE_TO_RETRY env" "jsonCode r = 200"
  shows "reauthenticate_callback env command r w =
     (Returned (),
      w\<lparr>networkStore := (networkStore w)
          \<lparr>NetworkStore.authToken := Response.authToken r, authenticating := False\<rparr>,
        session := \<lparr>Session.authToken = Response.authToken r,
          Session.encryptedAuthToken = Response.encryptedAuthToken r\<rparr>,
        calls := calls w @ [UpdateSessionAuthTokensCall (Response.authToken r)
            (Response.encryptedAuthToken r),
          SetAuthTokenCall (Response.authToken r),
          SetIsAuthenticatingCall False]\<rparr>)"
  using assms
  by (simp add: reauthenticate_callback_def Let_def NetworkStore_setIsAuthenticating_def
      updateSessionAuthTokens_def NetworkStore_setAuthToken_def)

section \<open>One cycle\<close>

lemma reauthenticate_thrown:
  assumes "\<not> has_stored_credentials w"
  shows "\<exists>n. reauthenticate env tr command w =
     (Thrown (ParameterRequired n ''Authenticate''), NetworkStore_setIsAuthenticating True w)"
  using reauthenticate_sync_absent [OF assms, of env tr]
  by (auto simp: reauthenticate_def)

lemma reauthenticate_rejected:
  assumes "has_stored_credentials w" "tr ''Authenticate'' (posted_data env w) = Rejected e"
  shows "reauthenticate env tr command w = (Returned (Rejected e), posted_world env w)"
  using assms
  by (simp add: reauthenticate_def reauthenticate_sync_present promise_then_def)

lemma reauthenticate_unable_to_retry:
  assumes "has_stored_credentials w" "tr ''Authenticate'' (posted_data env w) = Fulfilled r"
    "jsonCode r = UNABLE_TO_RETRY env"
  shows "reauthenticate env tr command w =
     (Returned (Rejected (Error ''Unable to retry Authenticate request'')),
      w\<lparr>networkStore := (networkStore w)\<lparr>authenticating := False\<rparr>,
        calls := calls w @ [SetIsAuthenticatingCall True,
          PostCall ''Authenticate'' (posted_data env w),
          SetIsAuthenticatingCall False]\<rparr>)"
  using assms
  by (simp add: reauthenticate_def reauthenticate_sync_present promise_then_def
      callback_unable_to_retry posted_world_def)

lemma reauthenticate_terminal:
  assumes "has_stored_credentials w" "tr ''Authenticate'' (posted_data env w) = Fulfilled r"
    "jsonCode r \<noteq> UNABLE_TO_RETRY env" "jsonCode r \<noteq> 200"
  shows "reauthenticate env tr command w =
     (Returned (Fulfilled ()),
      w\<lparr>networkStore := (networkStore w)\<lparr>authenticating := False\<rparr>,
        calls := calls w @ [SetIsAuthenticatingCall True,
          PostCall ''Authenticate'' (posted_data env w),
          SetIsAuthenticatingCall False,
          LogHmmmCall ''Redirecting to Sign In because we failed to reauthenticate''
            command (getAuthenticateErrorMessage env r),
          RedirectToSignInCall (getAuthenticateErrorMessage env r)]\<rparr>)"
  using assms
  by (simp add: reauthenticate_def reauthenticate_sync_present promise_then_def
      callback_terminal posted_world_def)

lemma reauthenticate_success:
  assumes "has_stored_credentials w" "tr ''Authenticate'' (posted_data env w) = Fulfilled r"
    "jsonCode r \<noteq> UNABLE_TO_RETRY env" "jsonCode r = 200"
  shows "reauthenticate env tr command w =
     (Returned (Fulfilled ()),
      w\<lparr>networkStore := (networkStore w)
          \<lparr>NetworkStore.authToken := Response.authToken r, authenticating := False\<rparr>,
        session := \<lparr>Session.authToken = Response.authToken r,
          Session.encryptedAuthToken = Response.encryptedAuthToken r\<rparr>,
        calls := calls w @ [SetIsAuthenticatingCall True,
          PostCall ''Authenticate'' (posted_data env w),
          UpdateSessionAuthTokensCall (Response.authToken r) (Response.encryptedAuthToken r),
          SetAuthTokenCall (Response.authToken r),
          SetIsAuthenticatingCall False]\<rparr>)"
  using assms
  by (simp add: reauthenticate_def reauthenticate_sync_present promise_then_def
      callback_success posted_world_def)

lemma answer_posted [simp]: "answer p n d = p"
  by (simp add: answer_def)

lemma example_world_credentials: "has_stored_credentials example_world"
  by (simp add: has_stored_credentials_def example_world_def NetworkStore_getCredentials_def)


lemma new_calls_extended: "calls w' = calls w @ cs \<Longrightarrow> new_calls w w' = cs"
  by (simp add: new_calls_def)

lemma new_calls_same [simp]: "new_calls w w = []"
  by (simp add: new_calls_def)

lemma posted_world_credentials [simp]:
  "NetworkStore_getCredentials (posted_world env w) = NetworkStore_getCredentials w"
  by (simp add: NetworkStore_getCredentials_def posted_world_def)

lemma posted_world_stored [simp]:
  "has_stored_credentials (posted_world env w) = has_stored_credentials w"
  by (simp add: has_stored_credentials_def)

lemma posted_world_data [simp]: "posted_data env (posted_world env w) = posted_data env w"
  by (simp add: posted_data_def)

lemma posted_world_calls:
  "calls (posted_world env w) =
     calls w @ [SetIsAuthenticatingCall True, PostCall ''Authenticate'' (posted_data env w)]"
  by (simp add: posted_world_def)

lemma posted_world_flag [simp]: "NetworkStore_isAuthenticating (posted_world env w)"
  by (simp add: NetworkStore_isAuthenticating_def posted_world_def)

lemma callers_calls:
  "has_stored_credentials w \<Longrightarrow>
   calls (callers n env tr w) =
     calls w @ concat (replicate n
       [SetIsAuthenticatingCall True, PostCall ''Authenticate'' (posted_data env w)])"
proof (induction n arbitrary: w)
  case 0
  show ?case by simp
next
  case (Suc n)
  have step: "callers (Suc n) env tr w = callers n env tr (posted_world env w)"
    using Suc.prems by (simp add: reauthenticate_sync_present)
  have "calls (callers n env tr (posted_world env w)) =
      calls (posted_world env w) @ concat (replicate n
        [SetIsAuthenticatingCall True, PostCall ''Authenticate'' (posted_data env w)])"
    using Suc.IH [of "posted_world env w"] Suc.prems by simp
  then show ?case
    unfolding step by (simp add: posted_world_def)
qed

lemma sent_commands_rounds:
  "sent_commands (concat (replicate n [SetIsAuthenticatingCall True, PostCall c d])) =
     replicate n (c, d)"
  by (induction n) simp_all

lemma reauthenticate_fulfilled_clears_flag:
  assumes "has_stored_credentials w" "tr ''Authenticate'' (posted_data env w) = Fulfilled r"
  shows "\<not> NetworkStore_isAuthenticating (snd (reauthenticate env tr command w))"
proof (cases "jsonCode r = UNABLE_TO_RETRY env")
  case True
  with assms show ?thesis
    by (simp add: reauthenticate_unable_to_retry NetworkStore_isAuthenticating_def)
next
  case False
  with assms show ?thesis
    by (cases "jsonCode r = 200")
      (simp_all add: reauthenticate_success reauthenticate_terminal NetworkStore_isAuthenticating_def)
qed

section \<open>Properties of the re-authentication cycle\<close>

text \<open>
  C1. The flag \<^verbatim>\<open>isAuthenticating\<close> should be false after every outcome of a cycle, the
  thrown precondition error of the parameter check of \<^verbatim>\<open>Authenticate\<close> included. With
  no stored credentials \<^verbatim>\<open>partnerUserID\<close> is undefined, \<^verbatim>\<open>Authenticate\<close> throws after
  \<^verbatim>\<open>setIsAuthenticating(true)\<close> has run, nothing catches the exception, and the flag stays
  true. The three outcomes of a response do clear it
  (\<open>reauthenticate_fulfilled_clears_flag\<close>).
\<close>

theorem reauthenticate_thrown_leaves_flag_set:
  "fst (reauthenticate example_env (answer (Fulfilled response_200)) ''OpenApp''
          world_without_credentials)
     = Thrown (ParameterRequired ''partnerUserID'' ''Authenticate'')
   \<and> NetworkStore_isAuthenticating
       (snd (reauthenticate example_env (answer (Fulfilled response_200)) ''OpenApp''
          world_without_credentials))"
  by (simp add: reauthenticate_def reauthenticate_sync_def Let_def Authenticate_def
      requireParameters_four NetworkStore_getCredentials_def NetworkStore_setIsAuthenticating_def
      NetworkStore_isAuthenticating_def world_without_credentials_def)


text \<open>
  C2, as the claim states it, fails: after a response that is neither 200 nor the
  unable-to-retry code the callback returns, so the promise of \<^verbatim>\<open>reauthenticate\<close> is
  fulfilled with no value. It is not a failure of any kind; the caller gets the result of
  a successful cycle.
\<close>

theorem reauthenticate_terminal_is_fulfilled_counterexample:
  "jsonCode response_407 \<noteq> 200
   \<and> jsonCode response_407 \<noteq> UNABLE_TO_RETRY example_env
   \<and> fst (reauthenticate example_env (answer (Fulfilled response_407)) ''OpenApp'' example_world)
       = Returned (Fulfilled ())
   \<and> fst (reauthenticate example_env (answer (Fulfilled response_407)) ''OpenApp'' example_world)
       = fst (reauthenticate example_env (answer (Fulfilled response_200)) ''OpenApp'' example_world)"
proof -
  have codes: "jsonCode response_407 \<noteq> UNABLE_TO_RETRY example_env" "jsonCode response_407 \<noteq> 200"
    "jsonCode response_200 \<noteq> UNABLE_TO_RETRY example_env" "jsonCode response_200 = 200"
    by (simp_all add: response_407_def response_200_def example_env_def)
  show ?thesis
    using codes
    by (simp add:
        reauthenticate_terminal [where tr = "answer (Fulfilled response_407)",
          OF example_world_credentials _ codes(1,2)]
        reauthenticate_success [where tr = "answer (Fulfilled response_200)",
          OF example_world_credentials _ codes(3,4)])
qed

text \<open>
  C2, amended. For every response whose \<^verbatim>\<open>jsonCode\<close> is neither 200 nor the
  unable-to-retry code, a cycle started with stored credentials clears
  \<^verbatim>\<open>isAuthenticating\<close>, invokes the Sign-In Redirector exactly once, with the message the
  error classifier gives for that response, writes no token, and its promise is
  fulfilled with no value: the terminal outcome reaches the caller through the redirect
  only.
\<close>

theorem reauthenticate_terminal_redirects_once:
  assumes "has_stored_credentials w"
    and "jsonCode r \<noteq> 200"
    and "jsonCode r \<noteq> UNABLE_TO_RETRY env"
  shows "\<not> NetworkStore_isAuthenticating (snd (reauthenticate env (answer (Fulfilled r)) command w))
    \<and> redirect_messages (new_calls w (snd (reauthenticate env (answer (Fulfilled r)) command w)))
        = [getAuthenticateErrorMessage env r]
    \<and> session_updates (new_calls w (snd (reauthenticate env (answer (Fulfilled r)) command w))) = []
    \<and> authToken_updates (new_calls w (snd (reauthenticate env (answer (Fulfilled r)) command w))) = []
    \<and> fst (reauthenticate env (answer (Fulfilled r)) command w) = Returned (Fulfilled ())"
proof -
  have posted: "answer (Fulfilled r) ''Authenticate'' (posted_data env w) = Fulfilled r"
    by simp
  note cycle = reauthenticate_terminal [where tr = "answer (Fulfilled r)" and command = command,
      OF assms(1) posted assms(3) assms(2)]
  show ?thesis
    unfolding cycle by (simp add: NetworkStore_isAuthenticating_def new_calls_def)
qed

theorem reauthenticate_terminal_redirects_once_witness:
  "has_stored_credentials example_world
   \<and> jsonCode response_407 \<noteq> 200
   \<and> jsonCode response_407 \<noteq> UNABLE_TO_RETRY example_env
   \<and> \<not> NetworkStore_isAuthenticating
        (snd (reauthenticate example_env (answer (Fulfilled response_407)) ''OpenApp'' example_world))
   \<and> redirect_messages (new_calls example_world
        (snd (reauthenticate example_env (answer (Fulfilled response_407)) ''OpenApp'' example_world)))
       = [''Session expired'']
   \<and> fst (reauthenticate example_env (answer (Fulfilled response_407)) ''OpenApp'' example_world)
       = Returned (Fulfilled ())"
proof -
  have h1: "has_stored_credentials example_world"
    by (rule example_world_credentials)
  have h2: "jsonCode response_407 \<noteq> 200"
    by (simp add: response_407_def)
  have h3: "jsonCode response_407 \<noteq> UNABLE_TO_RETRY example_env"
    by (simp add: response_407_def example_env_def)
  have msg: "getAuthenticateErrorMessage example_env response_407 = ''Session expired''"
    by (simp add: example_env_def example_classify_def response_407_def)
  show ?thesis
    using reauthenticate_terminal_redirects_once [OF h1 h2 h3, of "''OpenApp''"] h1 h2 h3 msg
    by simp
qed

text \<open>
  C3. For every response whose \<^verbatim>\<open>jsonCode\<close> is the unable-to-retry code, a cycle started
  with stored credentials clears \<^verbatim>\<open>isAuthenticating\<close> and its promise is rejected with the
  error "Unable to retry Authenticate request"; the Sign-In Redirector is not invoked, and
  neither the session nor the local token is written.
\<close>

theorem reauthenticate_unable_to_retry_rejects:
  assumes "has_stored_credentials w"
    and "jsonCode r = UNABLE_TO_RETRY env"
  shows "\<not> NetworkStore_isAuthenticating (snd (reauthenticate env (answer (Fulfilled r)) command w))
    \<and> fst (reauthenticate env (answer (Fulfilled r)) command w)
        = Returned (Rejected (Error ''Unable to retry Authenticate request''))
    \<and> redirect_messages (new_calls w (snd (reauthenticate env (answer (Fulfilled r)) command w))) = []
    \<and> session_updates (new_calls w (snd (reauthenticate env (answer (Fulfilled r)) command w))) = []
    \<and> authToken_updates (new_calls w (snd (reauthenticate env (answer (Fulfilled r)) command w))) = []
    \<and> session (snd (reauthenticate env (answer (Fulfilled r)) command w)) = session w
    \<and> NetworkStore_getAuthToken (snd (reauthenticate env (answer (Fulfilled r)) command w))
        = NetworkStore_getAuthToken w"
proof -
  have posted: "answer (Fulfilled r) ''Authenticate'' (posted_data env w) = Fulfilled r"
    by simp
  note cycle = reauthenticate_unable_to_retry [where tr = "answer (Fulfilled r)" and command = command,
      OF assms(1) posted assms(2)]
  show ?thesis
    unfolding cycle
    by (simp add: NetworkStore_isAuthenticating_def NetworkStore_getAuthToken_def new_calls_def)
qed

theorem reauthenticate_unable_to_retry_rejects_witness:
  "has_stored_credentials example_world
   \<and> jsonCode response_unable_to_retry = UNABLE_TO_RETRY example_env
   \<and> \<not> NetworkStore_isAuthenticating
        (snd (reauthenticate example_env (answer (Fulfilled response_unable_to_retry)) ''OpenApp''
           example_world))
   \<and> fst (reauthenticate example_env (answer (Fulfilled response_unable_to_retry)) ''OpenApp''
        example_world)
       = Returned (Rejected (Error ''Unable to retry Authenticate request''))
   \<and> redirect_messages (new_calls example_world
        (snd (reauthenticate example_env (answer (Fulfilled response_unable_to_retry)) ''OpenApp''
           example_world))) = []
   \<and> NetworkStore_getAuthToken
        (snd (reauthenticate example_env (answer (Fulfilled response_unable_to_retry)) ''OpenApp''
           example_world)) = Some ''tok0''"
proof -
  have h1: "has_stored_credentials example_world"
    by (rule example_world_credentials)
  have h2: "jsonCode response_unable_to_retry = UNABLE_TO_RETRY example_env"
    by (simp add: response_unable_to_retry_def example_env_def)
  have tok: "NetworkStore_getAuthToken example_world = Some ''tok0''"
    by (simp add: NetworkStore_getAuthToken_def example_world_def)
  show ?thesis
    using reauthenticate_unable_to_retry_rejects [OF h1 h2, of "''OpenApp''"] h1 h2 tok
    by simp
qed

text \<open>
  C4. For every response with \<^verbatim>\<open>jsonCode\<close> 200 (the unable-to-retry code being a code other
  than 200, as the spec's "distinguished sentinel"), a cycle started with stored
  credentials writes the response's \<^verbatim>\<open>authToken\<close> and \<^verbatim>\<open>encryptedAuthToken\<close> into the
  session and the \<^verbatim>\<open>authToken\<close> into the local store, clears \<^verbatim>\<open>isAuthenticating\<close>, its
  promise is fulfilled, and the Sign-In Redirector is not invoked.
\<close>

theorem reauthenticate_success_writes_tokens:
  assumes "has_stored_credentials w"
    and "jsonCode r = 200"
    and "UNABLE_TO_RETRY env \<noteq> 200"
  shows "session (snd (reauthenticate env (answer (Fulfilled r)) command w))
        = \<lparr>Session.authToken = Response.authToken r,
           Session.encryptedAuthToken = Response.encryptedAuthToken r\<rparr>
    \<and> NetworkStore_getAuthToken (snd (reauthenticate env (answer (Fulfilled r)) command w))
        = Response.authToken r
    \<and> \<not> NetworkStore_isAuthenticating (snd (reauthenticate env (answer (Fulfilled r)) command w))
    \<and> fst (reauthenticate env (answer (Fulfilled r)) command w) = Returned (Fulfilled ())
    \<and> redirect_messages (new_calls w (snd (reauthenticate env (answer (Fulfilled r)) command w))) = []"
proof -
  have posted: "answer (Fulfilled r) ''Authenticate'' (posted_data env w) = Fulfilled r"
    by simp
  have code: "jsonCode r \<noteq> UNABLE_TO_RETRY env"
    using assms(2,3) by simp
  note cycle = reauthenticate_success [where tr = "answer (Fulfilled r)" and command = command,
      OF assms(1) posted code assms(2)]
  show ?thesis
    unfolding cycle
    by (simp add: NetworkStore_isAuthenticating_def NetworkStore_getAuthToken_def new_calls_def)
qed

theorem reauthenticate_success_writes_tokens_witness:
  "has_stored_credentials example_world
   \<and> jsonCode response_200 = 200
   \<and> UNABLE_TO_RETRY example_env \<noteq> 200
   \<and> Session.authToken (session
        (snd (reauthenticate example_env (answer (Fulfilled response_200)) ''OpenApp'' example_world)))
       = Some ''tok1''
   \<and> NetworkStore_getAuthToken
        (snd (reauthenticate example_env (answer (Fulfilled response_200)) ''OpenApp'' example_world))
       = Some ''tok1''
   \<and> \<not> NetworkStore_isAuthenticating
        (snd (reauthenticate example_env (answer (Fulfilled response_200)) ''OpenApp'' example_world))
   \<and> fst (reauthenticate example_env (answer (Fulfilled response_200)) ''OpenApp'' example_world)
       = Returned (Fulfilled ())
   \<and> redirect_messages (new_calls example_world
        (snd (reauthenticate example_env (answer (Fulfilled response_200)) ''OpenApp'' example_world)))
       = []"
proof -
  have h1: "has_stored_credentials example_world"
    by (rule example_world_credentials)
  have h2: "jsonCode response_200 = 200"
    by (simp add: response_200_def)
  have h3: "UNABLE_TO_RETRY example_env \<noteq> 200"
    by (simp add: example_env_def)
  have tok: "Response.authToken response_200 = Some ''tok1''"
    by (simp add: response_200_def)
  show ?thesis
    using reauthenticate_success_writes_tokens [OF h1 h2 h3, of "''OpenApp''"] h1 h2 h3 tok
    by simp
qed


text \<open>
  C5. In one cycle, whatever the stored credentials and however the posted command
  settles, the session is written at most once and the local token is written at most
  once, and only when the response has \<^verbatim>\<open>jsonCode\<close> 200; the Sign-In Redirector is invoked
  at most once, and only when the response has a \<^verbatim>\<open>jsonCode\<close> that is neither 200 nor the
  unable-to-retry code; no cycle does both.
\<close>

theorem reauthenticate_side_effects_at_most_once:
  "let cs = new_calls w (snd (reauthenticate env tr command w)) in
     length (session_updates cs) \<le> 1
     \<and> length (authToken_updates cs) \<le> 1
     \<and> length (redirect_messages cs) \<le> 1
     \<and> (session_updates cs \<noteq> [] \<or> authToken_updates cs \<noteq> [] \<longrightarrow>
          (\<exists>r. tr ''Authenticate'' (posted_data env w) = Fulfilled r \<and> jsonCode r = 200))
     \<and> (redirect_messages cs \<noteq> [] \<longrightarrow>
          (\<exists>r. tr ''Authenticate'' (posted_data env w) = Fulfilled r
             \<and> jsonCode r \<noteq> 200 \<and> jsonCode r \<noteq> UNABLE_TO_RETRY env))
     \<and> (redirect_messages cs = [] \<or> (session_updates cs = [] \<and> authToken_updates cs = []))"
proof (cases "has_stored_credentials w")
  case False
  then obtain n where "reauthenticate env tr command w =
      (Thrown (ParameterRequired n ''Authenticate''), NetworkStore_setIsAuthenticating True w)"
    using reauthenticate_thrown [of w env tr command] by blast
  then show ?thesis
    by (simp add: new_calls_def NetworkStore_setIsAuthenticating_def)
next
  case stored: True
  show ?thesis
  proof (cases "tr ''Authenticate'' (posted_data env w)")
    case (Rejected e)
    show ?thesis
      unfolding reauthenticate_rejected [where tr = tr and command = command, OF stored Rejected]
      by (simp add: new_calls_def posted_world_def)
  next
    case (Fulfilled r)
    consider (unable) "jsonCode r = UNABLE_TO_RETRY env"
      | (terminal) "jsonCode r \<noteq> UNABLE_TO_RETRY env" "jsonCode r \<noteq> 200"
      | (success) "jsonCode r \<noteq> UNABLE_TO_RETRY env" "jsonCode r = 200"
      by blast
    then show ?thesis
    proof cases
      case unable
      show ?thesis
        unfolding reauthenticate_unable_to_retry [where tr = tr and command = command, OF stored Fulfilled unable]
        by (simp add: new_calls_def)
    next
      case terminal
      show ?thesis
        unfolding reauthenticate_terminal [where tr = tr and command = command, OF stored Fulfilled terminal]
        using Fulfilled terminal by (simp add: new_calls_def)
    next
      case success
      show ?thesis
        unfolding reauthenticate_success [where tr = tr and command = command, OF stored Fulfilled success]
        using Fulfilled success by (simp add: new_calls_def)
    qed
  qed
qed

theorem reauthenticate_side_effects_at_most_once_witness:
  "session_updates (new_calls example_world
      (snd (reauthenticate example_env (answer (Fulfilled response_200)) ''OpenApp'' example_world)))
     = [(Some ''tok1'', None)]
   \<and> jsonCode response_200 = 200
   \<and> redirect_messages (new_calls example_world
      (snd (reauthenticate example_env (answer (Fulfilled response_200)) ''OpenApp'' example_world)))
     = []
   \<and> redirect_messages (new_calls example_world
      (snd (reauthenticate example_env (answer (Fulfilled response_407)) ''OpenApp'' example_world)))
     = [''Session expired'']
   \<and> jsonCode response_407 \<noteq> 200 \<and> jsonCode response_407 \<noteq> UNABLE_TO_RETRY example_env
   \<and> session_updates (new_calls example_world
      (snd (reauthenticate example_env (answer (Fulfilled response_407)) ''OpenApp'' example_world)))
     = []"
proof -
  have codes: "jsonCode response_407 \<noteq> UNABLE_TO_RETRY example_env" "jsonCode response_407 \<noteq> 200"
    "jsonCode response_200 \<noteq> UNABLE_TO_RETRY example_env" "jsonCode response_200 = 200"
    by (simp_all add: response_407_def response_200_def example_env_def)
  have msg: "getAuthenticateErrorMessage example_env response_407 = ''Session expired''"
    by (simp add: example_env_def example_classify_def response_407_def)
  have tok: "Response.authToken response_200 = Some ''tok1''"
    "Response.encryptedAuthToken response_200 = None"
    by (simp_all add: response_200_def)
  have ok: "session_updates (new_calls example_world
      (snd (reauthenticate example_env (answer (Fulfilled response_200)) ''OpenApp'' example_world)))
     = [(Some ''tok1'', None)]"
    by (simp add: tok new_calls_def
        reauthenticate_success [where tr = "answer (Fulfilled response_200)",
          OF example_world_credentials _ codes(3,4)])
  have bad: "redirect_messages (new_calls example_world
      (snd (reauthenticate example_env (answer (Fulfilled response_407)) ''OpenApp'' example_world)))
     = [''Session expired'']"
    by (simp add: msg new_calls_def
        reauthenticate_terminal [where tr = "answer (Fulfilled response_407)",
          OF example_world_credentials _ codes(1,2)])
  show ?thesis
    using
      reauthenticate_side_effects_at_most_once
        [of example_world example_env "answer (Fulfilled response_200)" "''OpenApp''"]
      reauthenticate_side_effects_at_most_once
        [of example_world example_env "answer (Fulfilled response_407)" "''OpenApp''"]
      ok bad codes
    by (simp add: Let_def)
qed

text \<open>
  C6. A call of \<^verbatim>\<open>Authenticate\<close> in which \<^verbatim>\<open>partnerName\<close>, \<^verbatim>\<open>partnerPassword\<close>,
  \<^verbatim>\<open>partnerUserID\<close> or \<^verbatim>\<open>partnerUserSecret\<close> is missing throws the precondition error of
  the parameter check, synchronously, and leaves the world as it was: no command has gone
  to the Command Transport.
\<close>

theorem Authenticate_missing_parameter_throws:
  assumes "partnerName p = None \<or> partnerPassword p = None
    \<or> partnerUserID p = None \<or> partnerUserSecret p = None"
  shows "(\<exists>n. fst (Authenticate tr p w) = Thrown (ParameterRequired n ''Authenticate''))
    \<and> snd (Authenticate tr p w) = w
    \<and> sent_commands (new_calls w (snd (Authenticate tr p w))) = []"
proof -
  obtain n where "Authenticate tr p w = (Thrown (ParameterRequired n ''Authenticate''), w)"
    using Authenticate_absent [OF assms] by blast
  then show ?thesis by simp
qed

theorem Authenticate_missing_parameter_throws_witness:
  "partnerUserSecret example_parameters = None
   \<and> fst (Authenticate (answer (Fulfilled response_200)) example_parameters example_world)
       = Thrown (ParameterRequired ''partnerUserSecret'' ''Authenticate'')
   \<and> snd (Authenticate (answer (Fulfilled response_200)) example_parameters example_world)
       = example_world"
proof -
  have missing: "partnerUserSecret example_parameters = None"
    by (simp add: example_parameters_def)
  have thrown: "fst (Authenticate (answer (Fulfilled response_200)) example_parameters example_world)
       = Thrown (ParameterRequired ''partnerUserSecret'' ''Authenticate'')"
    by (simp add: Authenticate_def Let_def requireParameters_four example_parameters_def)
  show ?thesis
    using Authenticate_missing_parameter_throws
      [of example_parameters "answer (Fulfilled response_200)" example_world] missing thrown
    by simp
qed


text \<open>
  C7. In a successful cycle (response 200, the unable-to-retry code being another code)
  the calls go out in this order: the flag is set, the command is posted, the session is
  updated, the local token is set, and only then, as the last call of the cycle, the flag
  is cleared. From the moment the flag reads false again, the local store and the session
  hold the token of the response, which is what a request released at that moment reads.
\<close>

theorem reauthenticate_success_writes_before_clearing:
  assumes "has_stored_credentials w"
    and "jsonCode r = 200"
    and "UNABLE_TO_RETRY env \<noteq> 200"
  shows "new_calls w (snd (reauthenticate env (answer (Fulfilled r)) command w))
        = [SetIsAuthenticatingCall True,
           PostCall ''Authenticate'' (posted_data env w),
           UpdateSessionAuthTokensCall (Response.authToken r) (Response.encryptedAuthToken r),
           SetAuthTokenCall (Response.authToken r),
           SetIsAuthenticatingCall False]
    \<and> \<not> NetworkStore_isAuthenticating (snd (reauthenticate env (answer (Fulfilled r)) command w))
    \<and> NetworkStore_getAuthToken (snd (reauthenticate env (answer (Fulfilled r)) command w))
        = Response.authToken r
    \<and> Session.authToken (session (snd (reauthenticate env (answer (Fulfilled r)) command w)))
        = Response.authToken r"
proof -
  have posted: "answer (Fulfilled r) ''Authenticate'' (posted_data env w) = Fulfilled r"
    by simp
  have code: "jsonCode r \<noteq> UNABLE_TO_RETRY env"
    using assms(2,3) by simp
  note cycle = reauthenticate_success [where tr = "answer (Fulfilled r)" and command = command,
      OF assms(1) posted code assms(2)]
  show ?thesis
    unfolding cycle
    by (simp add: NetworkStore_isAuthenticating_def NetworkStore_getAuthToken_def new_calls_def)
qed

theorem reauthenticate_success_writes_before_clearing_witness:
  "has_stored_credentials example_world
   \<and> jsonCode response_200 = 200
   \<and> UNABLE_TO_RETRY example_env \<noteq> 200
   \<and> new_calls example_world
        (snd (reauthenticate example_env (answer (Fulfilled response_200)) ''OpenApp'' example_world))
       = [SetIsAuthenticatingCall True,
          PostCall ''Authenticate'' (posted_data example_env example_world),
          UpdateSessionAuthTokensCall (Some ''tok1'') None,
          SetAuthTokenCall (Some ''tok1''),
          SetIsAuthenticatingCall False]
   \<and> NetworkStore_getAuthToken example_world = Some ''tok0''
   \<and> NetworkStore_getAuthToken
        (snd (reauthenticate example_env (answer (Fulfilled response_200)) ''OpenApp'' example_world))
       = Some ''tok1''"
proof -
  have h1: "has_stored_credentials example_world"
    by (rule example_world_credentials)
  have h2: "jsonCode response_200 = 200"
    by (simp add: response_200_def)
  have h3: "UNABLE_TO_RETRY example_env \<noteq> 200"
    by (simp add: example_env_def)
  have tok: "Response.authToken response_200 = Some ''tok1''"
    "Response.encryptedAuthToken response_200 = None"
    by (simp_all add: response_200_def)
  have old: "NetworkStore_getAuthToken example_world = Some ''tok0''"
    by (simp add: NetworkStore_getAuthToken_def example_world_def)
  show ?thesis
    using reauthenticate_success_writes_before_clearing [OF h1 h2 h3, of "''OpenApp''"]
      h1 h2 h3 tok old
    by simp
qed

text \<open>
  C8, as the claim states it, fails: \<^verbatim>\<open>reauthenticate\<close> never reads the flag. A first
  call starts a cycle (the flag is true and no response has arrived); a second call made
  at that moment posts a second \<^verbatim>\<open>Authenticate\<close> command.
\<close>

theorem reauthenticate_twice_posts_twice_counterexample:
  "NetworkStore_isAuthenticating
     (snd (reauthenticate_sync example_env (answer (Fulfilled response_200)) example_world))
   \<and> sent_commands (new_calls example_world
       (snd (reauthenticate_sync example_env (answer (Fulfilled response_200))
          (snd (reauthenticate_sync example_env (answer (Fulfilled response_200)) example_world)))))
     = [(''Authenticate'', posted_data example_env example_world),
        (''Authenticate'', posted_data example_env example_world)]"
proof -
  have first: "snd (reauthenticate_sync example_env (answer (Fulfilled response_200)) example_world)
      = posted_world example_env example_world"
    by (simp add: reauthenticate_sync_present example_world_credentials)
  have second: "snd (reauthenticate_sync example_env (answer (Fulfilled response_200))
        (posted_world example_env example_world))
      = posted_world example_env (posted_world example_env example_world)"
    by (simp add: reauthenticate_sync_present example_world_credentials)
  have "calls (posted_world example_env (posted_world example_env example_world)) =
      calls example_world @
        [SetIsAuthenticatingCall True,
         PostCall ''Authenticate'' (posted_data example_env example_world),
         SetIsAuthenticatingCall True,
         PostCall ''Authenticate'' (posted_data example_env example_world)]"
    by (simp add: posted_world_calls)
  then show ?thesis
    unfolding first second
    by (simp add: new_calls_extended)
qed

text \<open>
  C8, amended. Every call of \<^verbatim>\<open>reauthenticate\<close> made with stored credentials posts its
  own \<^verbatim>\<open>Authenticate\<close> command, whether or not a cycle is already in flight: when \<open>n\<close>
  callers invoke it before any response has arrived, \<open>n\<close> identical commands go to the
  Command Transport, and the flag is true from the first call on.
\<close>

theorem reauthenticate_callers_post_each:
  assumes "has_stored_credentials w"
  shows "sent_commands (new_calls w (callers n env tr w))
        = replicate n (''Authenticate'', posted_data env w)
    \<and> (0 < n \<longrightarrow> NetworkStore_isAuthenticating (callers n env tr w))"
proof -
  have sent: "sent_commands (new_calls w (callers n env tr w))
      = replicate n (''Authenticate'', posted_data env w)"
    by (simp add: new_calls_extended [OF callers_calls [OF assms]] sent_commands_rounds)
  have flag: "NetworkStore_isAuthenticating (callers n env tr w)" if "0 < n"
    using that assms
  proof (induction n arbitrary: w)
    case 0
    then show ?case by simp
  next
    case (Suc n)
    have step: "callers (Suc n) env tr w = callers n env tr (posted_world env w)"
      using Suc.prems by (simp add: reauthenticate_sync_present)
    show ?case
    proof (cases n)
      case 0
      then show ?thesis unfolding step by simp
    next
      case (Suc m)
      then show ?thesis
        unfolding step using Suc.IH [of "posted_world env w"] Suc.prems by simp
    qed
  qed
  from sent flag show ?thesis by blast
qed

theorem reauthenticate_callers_post_each_witness:
  "has_stored_credentials example_world
   \<and> (0::nat) < 2
   \<and> sent_commands (new_calls example_world
        (callers 2 example_env (answer (Fulfilled response_200)) example_world))
       = [(''Authenticate'', posted_data example_env example_world),
          (''Authenticate'', posted_data example_env example_world)]
   \<and> NetworkStore_isAuthenticating
        (callers 2 example_env (answer (Fulfilled response_200)) example_world)"
proof -
  have h: "has_stored_credentials example_world"
    by (rule example_world_credentials)
  have two: "replicate 2 x = [x, x]" for x :: "string \<times> Command_data"
    by (simp add: numeral_2_eq_2)
  show ?thesis
    using reauthenticate_callers_post_each
      [OF h, of 2 example_env "answer (Fulfilled response_200)"] h two
    by simp
qed

text \<open>
  C9. Whatever the parameters, every command that \<^verbatim>\<open>Authenticate\<close> hands to the Command
  Transport is named Authenticate and carries \<^verbatim>\<open>shouldRetry = false\<close> and
  \<^verbatim>\<open>forceNetworkRequest = true\<close>.
\<close>

theorem Authenticate_command_flags:
  "\<forall>(n, d) \<in> set (sent_commands (new_calls w (snd (Authenticate tr p w)))).
     n = ''Authenticate'' \<and> shouldRetry d = False \<and> forceNetworkRequest d = True"
proof (cases "partnerName p = None \<or> partnerPassword p = None
    \<or> partnerUserID p = None \<or> partnerUserSecret p = None")
  case True
  then obtain n where "Authenticate tr p w = (Thrown (ParameterRequired n ''Authenticate''), w)"
    using Authenticate_absent [of p tr w] by blast
  then show ?thesis by simp
next
  case False
  then have "Authenticate tr p w =
      (Returned (tr ''Authenticate'' (Authenticate_data p)),
       w\<lparr>calls := calls w @ [PostCall ''Authenticate'' (Authenticate_data p)]\<rparr>)"
    by (simp add: Authenticate_present)
  then show ?thesis by simp
qed

theorem Authenticate_command_flags_witness:
  "map fst (sent_commands (new_calls example_world
      (snd (Authenticate (answer (Fulfilled response_200)) complete_parameters example_world))))
     = [''Authenticate'']
   \<and> map (shouldRetry \<circ> snd) (sent_commands (new_calls example_world
      (snd (Authenticate (answer (Fulfilled response_200)) complete_parameters example_world))))
     = [False]
   \<and> map (forceNetworkRequest \<circ> snd) (sent_commands (new_calls example_world
      (snd (Authenticate (answer (Fulfilled response_200)) complete_parameters example_world))))
     = [True]"
proof -
  have present: "partnerName complete_parameters \<noteq> None"
    "partnerPassword complete_parameters \<noteq> None"
    "partnerUserID complete_parameters \<noteq> None"
    "partnerUserSecret complete_parameters \<noteq> None"
    by (simp_all add: complete_parameters_def)
  have sent: "sent_commands (new_calls example_world
      (snd (Authenticate (answer (Fulfilled response_200)) complete_parameters example_world)))
     = [(''Authenticate'', Authenticate_data complete_parameters)]"
    by (simp add: Authenticate_present [OF present])
  show ?thesis
    using Authenticate_command_flags
      [of example_world "answer (Fulfilled response_200)" complete_parameters]
    unfolding sent by simp
qed

text \<open>
  C10. A response with \<^verbatim>\<open>jsonCode\<close> 200 and no \<^verbatim>\<open>authToken\<close> (the unable-to-retry code
  being a code other than 200) still ends the cycle as a success: the local token
  becomes null, \<^verbatim>\<open>isAuthenticating\<close> is cleared, the promise is fulfilled, and the Sign-In
  Redirector is not invoked.
\<close>

theorem reauthenticate_success_without_token:
  assumes "has_stored_credentials w"
    and "jsonCode r = 200"
    and "Response.authToken r = None"
    and "UNABLE_TO_RETRY env \<noteq> 200"
  shows "NetworkStore_getAuthToken (snd (reauthenticate env (answer (Fulfilled r)) command w)) = None
    \<and> authToken_updates (new_calls w (snd (reauthenticate env (answer (Fulfilled r)) command w)))
        = [None]
    \<and> \<not> NetworkStore_isAuthenticating (snd (reauthenticate env (answer (Fulfilled r)) command w))
    \<and> fst (reauthenticate env (answer (Fulfilled r)) command w) = Returned (Fulfilled ())
    \<and> redirect_messages (new_calls w (snd (reauthenticate env (answer (Fulfilled r)) command w))) = []"
proof -
  have posted: "answer (Fulfilled r) ''Authenticate'' (posted_data env w) = Fulfilled r"
    by simp
  have code: "jsonCode r \<noteq> UNABLE_TO_RETRY env"
    using assms(2,4) by simp
  note cycle = reauthenticate_success [where tr = "answer (Fulfilled r)" and command = command,
      OF assms(1) posted code assms(2)]
  show ?thesis
    unfolding cycle using assms(3)
    by (simp add: NetworkStore_isAuthenticating_def NetworkStore_getAuthToken_def new_calls_def)
qed

theorem reauthenticate_success_without_token_witness:
  "has_stored_credentials example_world
   \<and> jsonCode response_200_no_token = 200
   \<and> Response.authToken response_200_no_token = None
   \<and> UNABLE_TO_RETRY example_env \<noteq> 200
   \<and> NetworkStore_getAuthToken example_world = Some ''tok0''
   \<and> NetworkStore_getAuthToken
        (snd (reauthenticate example_env (answer (Fulfilled response_200_no_token)) ''OpenApp''
           example_world)) = None
   \<and> \<not> NetworkStore_isAuthenticating
        (snd (reauthenticate example_env (answer (Fulfilled response_200_no_token)) ''OpenApp''
           example_world))
   \<and> fst (reauthenticate example_env (answer (Fulfilled response_200_no_token)) ''OpenApp''
        example_world) = Returned (Fulfilled ())
   \<and> redirect_messages (new_calls example_world
        (snd (reauthenticate example_env (answer (Fulfilled response_200_no_token)) ''OpenApp''
           example_world))) = []"
proof -
  have h1: "has_stored_credentials example_world"
    by (rule example_world_credentials)
  have h2: "jsonCode response_200_no_token = 200"
    by (simp add: response_200_no_token_def)
  have h3: "Response.authToken response_200_no_token = None"
    by (simp add: response_200_no_token_def)
  have h4: "UNABLE_TO_RETRY example_env \<noteq> 200"
    by (simp add: example_env_def)
  have old: "NetworkStore_getAuthToken example_world = Some ''tok0''"
    by (simp add: NetworkStore_getAuthToken_def example_world_def)
  show ?thesis
    using reauthenticate_success_without_token [OF h1 h2 h3 h4, of "''OpenApp''"] h1 h2 h3 h4 old
    by simp
qed

end
